theory Spec2Isabelle
  imports Main
begin

section \<open>Python values, exceptions and awaited calls\<close>

text \<open>
  The module \<^verbatim>\<open>Thunder/__main__.py\<close> starts the bot's services, runs the request
  executor and the token cleanup loop, and shuts everything down again. Handlers, the
  rate limiter, the database and the web server are imported collaborators: they enter
  the model as parameters that say what each awaited call does.

  Exceptions are values. The three constructors are the three classes the module's
  \<^verbatim>\<open>except\<close> clauses tell apart: \<^verbatim>\<open>asyncio.CancelledError\<close>, any instance of
  \<^verbatim>\<open>Exception\<close> (with its class name or message), and any other \<^verbatim>\<open>BaseException\<close>
  such as \<^verbatim>\<open>KeyboardInterrupt\<close>. \<^verbatim>\<open>CancelledError\<close> derives from \<^verbatim>\<open>BaseException\<close>
  (Python 3.8 and later), so a bare \<^verbatim>\<open>except Exception\<close> does not catch it.
\<close>

datatype exc = CancelledError | Exception string | BaseException string

datatype 'a outcome = Returns 'a | Raises exc

datatype pyval =
    PNone
  | PBool bool
  | PInt int
  | PStr string
  | PObj nat
  | PDict "(string \<times> pyval) list"

type_synonym pydict = "(string \<times> pyval) list"

text \<open>Python truth value testing, as \<^verbatim>\<open>all([...])\<close> and \<^verbatim>\<open>if x:\<close> apply it. An object
  without \<^verbatim>\<open>__bool__\<close> and \<^verbatim>\<open>__len__\<close> (a client, a message) is true.\<close>

fun truthy :: "pyval \<Rightarrow> bool" where
  "truthy PNone = False"
| "truthy (PBool b) = b"
| "truthy (PInt i) = (i \<noteq> 0)"
| "truthy (PStr s) = (s \<noteq> [])"
| "truthy (PObj _) = True"
| "truthy (PDict d) = (d \<noteq> [])"

text \<open>\<^verbatim>\<open>d.get(k)\<close> and \<^verbatim>\<open>d.get(k, default)\<close>.\<close>

definition dict_get_default :: "pydict \<Rightarrow> string \<Rightarrow> pyval \<Rightarrow> pyval" where
  "dict_get_default d k dflt = (case map_of d k of None \<Rightarrow> dflt | Some v \<Rightarrow> v)"

definition dict_get :: "pydict \<Rightarrow> string \<Rightarrow> pyval" where
  "dict_get d k = dict_get_default d k PNone"

section \<open>Log records and observable events\<close>

datatype level = DEBUG | INFO | ERROR

text \<open>One constructor for each message the module logs, with the values it formats.\<close>

datatype msg =
    RequestExecutorStarted
  | SkippingInvalidRequest pydict
  | ExecutingQueued pyval pyval
  | UnknownHandlerType pyval
  | RequestExecutorCancelled
  | ErrorExecutingRequest pyval exc
  | TokenCleanupCancelled
  | TokenCleanupError exc
  | InvalidPluginSpec string
  | FailedImportPlugin string exc
  | FailedInitBot exc
  | ErrorRestartMessage exc
  | FailedInitClients exc
  | FailedStartExecutor exc
  | FailedStartWebServer exc
  | ErrorRateLimiterCleanup exc
  | ErrorClientCleanup exc
  | ErrorWebServerCleanup exc
  | UnexpectedError exc

datatype handler_id = Private | Link

text \<open>The three background tasks \<^verbatim>\<open>start_services\<close> creates, by the names of its
  local variables.\<close>

datatype task = keepalive_task | token_cleanup_task | request_executor_task

text \<open>
  What a run does that can be seen from outside, in order: log records, calls of the two
  handlers and their side effects, sleeps (in seconds), calls of collaborators (by name),
  and what happens to tasks. Output written with \<^verbatim>\<open>print\<close> is left out.
\<close>

datatype event =
    Log level msg
  | Invoke handler_id pyval pyval pydict
  | HandlerEffect nat
  | Sleep nat
  | CleanupExpiredTokens
  | CallOperation nat
  | LogRetry nat nat
  | Call string
  | CreateTask task
  | CancelTask task
  | AwaitTask task
  | CloseLoop

section \<open>Handlers as coroutines\<close>

text \<open>
  \<^verbatim>\<open>link_handler\<close> and \<^verbatim>\<open>private_receive_handler\<close> come from
  \<^verbatim>\<open>Thunder.bot.plugins.stream\<close>. A call builds a coroutine, which the executor awaits.
  The coroutine is described by what can be seen of it from outside: it finishes, it
  raises, it performs a side effect (numbered, to tell effects apart) and goes on, or it
  suspends at an \<^verbatim>\<open>await\<close> of its own. A suspended coroutine is resumed normally (first
  argument of \<open>Await\<close>) or, when the task was cancelled meanwhile, with \<^verbatim>\<open>CancelledError\<close>
  raised at the suspension point (second argument: what the handler does then; a handler
  with no \<^verbatim>\<open>try\<close> around the await has \<open>Throw CancelledError\<close> there).
\<close>

datatype coro =
    Finish
  | Throw exc
  | Effect nat coro
  | Await coro coro

record handlers =
  private_receive_handler :: "pyval \<Rightarrow> pyval \<Rightarrow> pydict \<Rightarrow> coro"
  link_handler :: "pyval \<Rightarrow> pyval \<Rightarrow> pydict \<Rightarrow> coro"

text \<open>
  Awaiting a coroutine inside the executor task. The second argument says when
  \<^verbatim>\<open>task.cancel()\<close> reaches the task: \<open>None\<close> is never, \<open>Some n\<close> is while the task is
  suspended at the \<open>n\<close>-th suspension point from now (counting from 0). asyncio delivers a
  cancellation by raising \<^verbatim>\<open>CancelledError\<close> at that point, once.
\<close>

fun drive :: "coro \<Rightarrow> nat option \<Rightarrow> event list \<times> unit outcome \<times> nat option" where
  "drive Finish c = ([], Returns (), c)"
| "drive (Throw e) c = ([], Raises e, c)"
| "drive (Effect n k) c = (case drive k c of (ev, r) \<Rightarrow> (HandlerEffect n # ev, r))"
| "drive (Await k kc) None = drive k None"
| "drive (Await k kc) (Some 0) = drive kc None"
| "drive (Await k kc) (Some (Suc n)) = drive k (Some n)"

section \<open>The request executor\<close>

text \<open>
  \<^verbatim>\<open>rate_limiter.queue_consumer()\<close> is an asynchronous generator. Each step of the
  \<^verbatim>\<open>async for\<close> either yields a request dictionary or raises; the end of the list is the
  end of the generator.
\<close>

datatype qstep = QItem pydict | QRaise exc

datatype step_result = Continue "nat option" | Break | Propagate exc

datatype exec_result = Exhausted | Cancelled | Propagated exc

definition handler_for :: "handlers \<Rightarrow> handler_id \<Rightarrow> pyval \<Rightarrow> pyval \<Rightarrow> pydict \<Rightarrow> coro" where
  "handler_for hs h = (case h of Private \<Rightarrow> private_receive_handler hs | Link \<Rightarrow> link_handler hs)"

text \<open>\<^verbatim>\<open>await handler(bot, message, **kwargs)\<close>: unpacking something that is not a
  mapping raises \<^verbatim>\<open>TypeError\<close> before the handler is called.\<close>

definition call_handler ::
  "handlers \<Rightarrow> handler_id \<Rightarrow> pyval \<Rightarrow> pyval \<Rightarrow> pyval \<Rightarrow> nat option
    \<Rightarrow> event list \<times> unit outcome \<times> nat option" where
  "call_handler hs h bot' message kwargs c =
     (case kwargs of
        PDict kw \<Rightarrow>
          (case drive (handler_for hs h bot' message kw) c of
             (ev, r) \<Rightarrow> (Invoke h bot' message kw # ev, r))
      | _ \<Rightarrow> ([], Raises (Exception ''TypeError''), c))"

text \<open>The \<^verbatim>\<open>if\<close>/\<^verbatim>\<open>elif\<close>/\<^verbatim>\<open>else\<close> on \<^verbatim>\<open>handler_type\<close> (lines 215 to 220).\<close>

definition dispatch ::
  "handlers \<Rightarrow> pyval \<Rightarrow> pyval \<Rightarrow> pyval \<Rightarrow> pyval \<Rightarrow> nat option
    \<Rightarrow> event list \<times> unit outcome \<times> nat option" where
  "dispatch hs handler_type bot' message kwargs c =
     (if handler_type = PStr ''private'' then call_handler hs Private bot' message kwargs c
      else if handler_type = PStr ''link'' then call_handler hs Link bot' message kwargs c
      else ([Log ERROR (UnknownHandlerType handler_type)], Returns (), c))"

text \<open>The body of the loop (lines 202 to 226): the \<^verbatim>\<open>try\<close> block with its two
  \<^verbatim>\<open>except\<close> clauses, \<^verbatim>\<open>CancelledError\<close> first.\<close>

definition execute_request :: "handlers \<Rightarrow> nat option \<Rightarrow> pydict \<Rightarrow> event list \<times> step_result" where
  "execute_request hs c request_data =
     (let handler_type = dict_get request_data ''handler_type'';
          bot' = dict_get request_data ''bot'';
          message = dict_get request_data ''message'';
          kwargs = dict_get_default request_data ''kwargs'' (PDict []);
          user_id = dict_get request_data ''user_id''
      in if \<not> list_all truthy [handler_type, bot', message, user_id]
         then ([Log ERROR (SkippingInvalidRequest request_data)], Continue c)
         else
           (case dispatch hs handler_type bot' message kwargs c of
              (ev, Returns _, c') \<Rightarrow>
                (Log DEBUG (ExecutingQueued handler_type user_id) # ev, Continue c')
            | (ev, Raises CancelledError, c') \<Rightarrow>
                (Log DEBUG (ExecutingQueued handler_type user_id) # ev
                   @ [Log INFO RequestExecutorCancelled], Break)
            | (ev, Raises (Exception m), c') \<Rightarrow>
                (Log DEBUG (ExecutingQueued handler_type user_id) # ev
                   @ [Log ERROR (ErrorExecutingRequest (dict_get request_data ''user_id'')
                                   (Exception m))], Continue c')
            | (ev, Raises (BaseException m), c') \<Rightarrow>
                (Log DEBUG (ExecutingQueued handler_type user_id) # ev,
                 Propagate (BaseException m))))"

definition prepend :: "event list \<Rightarrow> event list \<times> 'r \<Rightarrow> event list \<times> 'r" where
  "prepend ev p = (ev @ fst p, snd p)"

text \<open>The \<^verbatim>\<open>async for\<close> loop (line 201): an exception of the generator is outside the
  \<^verbatim>\<open>try\<close> and leaves the function.\<close>

fun executor_loop :: "handlers \<Rightarrow> nat option \<Rightarrow> qstep list \<Rightarrow> event list \<times> exec_result" where
  "executor_loop hs c [] = ([], Exhausted)"
| "executor_loop hs c (QRaise e # q) = ([], Propagated e)"
| "executor_loop hs c (QItem request_data # q) =
     (case execute_request hs c request_data of
        (ev, Continue c') \<Rightarrow> prepend ev (executor_loop hs c' q)
      | (ev, Break) \<Rightarrow> (ev, Cancelled)
      | (ev, Propagate e) \<Rightarrow> (ev, Propagated e))"

definition request_executor :: "handlers \<Rightarrow> nat option \<Rightarrow> qstep list \<Rightarrow> event list \<times> exec_result" where
  "request_executor hs c q = prepend [Log INFO RequestExecutorStarted] (executor_loop hs c q)"

subsection \<open>Notions used to state the executor's properties\<close>

text \<open>The check of line 209, \<^verbatim>\<open>all([handler_type, bot, message, user_id])\<close>.\<close>

definition passes_field_check :: "pydict \<Rightarrow> bool" where
  "passes_field_check rd =
     list_all truthy [dict_get rd ''handler_type'', dict_get rd ''bot'',
                      dict_get rd ''message'', dict_get rd ''user_id'']"

text \<open>A request that reaches a handler: it passes the check, its kind is one of the two
  the executor knows, and its \<^verbatim>\<open>kwargs\<close>, when given, is a mapping.\<close>

definition dispatchable :: "pydict \<Rightarrow> bool" where
  "dispatchable rd =
     (passes_field_check rd
      \<and> (dict_get rd ''handler_type'' = PStr ''private''
         \<or> dict_get rd ''handler_type'' = PStr ''link'')
      \<and> (case dict_get_default rd ''kwargs'' (PDict []) of PDict _ \<Rightarrow> True | _ \<Rightarrow> False))"

definition options :: "pydict \<Rightarrow> pydict" where
  "options rd = (case dict_get_default rd ''kwargs'' (PDict []) of PDict kw \<Rightarrow> kw | _ \<Rightarrow> [])"

definition kind :: "pydict \<Rightarrow> handler_id" where
  "kind rd = (if dict_get rd ''handler_type'' = PStr ''private'' then Private else Link)"

text \<open>The call a dispatchable request stands for.\<close>

definition invocation_of :: "pydict \<Rightarrow> event" where
  "invocation_of rd = Invoke (kind rd) (dict_get rd ''bot'') (dict_get rd ''message'') (options rd)"

text \<open>
  What awaiting the handler of a dispatchable request does when nobody cancels the task:
  kind \<^verbatim>\<open>'private'\<close> runs \<^verbatim>\<open>private_receive_handler(bot, message, **kwargs)\<close>, kind
  \<^verbatim>\<open>'link'\<close> runs \<^verbatim>\<open>link_handler(bot, message, **kwargs)\<close>.
\<close>

definition handler_run :: "handlers \<Rightarrow> pydict \<Rightarrow> event list \<times> unit outcome \<times> nat option" where
  "handler_run hs rd =
     (if dict_get rd ''handler_type'' = PStr ''private''
      then drive (private_receive_handler hs (dict_get rd ''bot'') (dict_get rd ''message'')
                   (options rd)) None
      else drive (link_handler hs (dict_get rd ''bot'') (dict_get rd ''message'')
                   (options rd)) None)"

text \<open>The handler of a request returns or raises an \<^verbatim>\<open>Exception\<close> when nobody cancels
  the task.\<close>

definition settles :: "handlers \<Rightarrow> pydict \<Rightarrow> bool" where
  "settles hs rd =
     (case handler_run hs rd of
        (_, Returns _, _) \<Rightarrow> True
      | (_, Raises (Exception _), _) \<Rightarrow> True
      | _ \<Rightarrow> False)"

text \<open>
  Everything a dispatchable request should leave in the trace: the DEBUG record, the call
  of its handler, whatever that handler does, and the ERROR record with the request's
  \<^verbatim>\<open>user_id\<close> when the handler raised.
\<close>

definition request_trace :: "handlers \<Rightarrow> pydict \<Rightarrow> event list" where
  "request_trace hs rd =
     [Log DEBUG (ExecutingQueued (dict_get rd ''handler_type'') (dict_get rd ''user_id'')),
      invocation_of rd]
     @ fst (handler_run hs rd)
     @ (case fst (snd (handler_run hs rd)) of
          Returns _ \<Rightarrow> []
        | Raises e \<Rightarrow> [Log ERROR (ErrorExecutingRequest (dict_get rd ''user_id'') e)])"

definition invocations :: "event list \<Rightarrow> event list" where
  "invocations ev = filter (\<lambda>e. case e of Invoke _ _ _ _ \<Rightarrow> True | _ \<Rightarrow> False) ev"

definition handler_effects :: "event list \<Rightarrow> nat list" where
  "handler_effects ev = concat (map (\<lambda>e. case e of HandlerEffect n \<Rightarrow> [n] | _ \<Rightarrow> []) ev)"

subsection \<open>Sample requests and handlers\<close>

definition link_request :: pydict where
  "link_request = [(''handler_type'', PStr ''link''), (''bot'', PObj 1), (''message'', PObj 2),
                   (''kwargs'', PDict []), (''user_id'', PInt 42)]"

definition private_request :: pydict where
  "private_request = [(''handler_type'', PStr ''private''), (''bot'', PObj 1),
                      (''message'', PObj 3), (''user_id'', PInt 7)]"

text \<open>Handlers with one side effect each.\<close>

definition simple_handlers :: handlers where
  "simple_handlers =
     \<lparr>private_receive_handler = (\<lambda>b m kw. Effect 2 Finish),
      link_handler = (\<lambda>b m kw. Effect 1 Finish)\<rparr>"


text \<open>A link handler with an \<^verbatim>\<open>await\<close> between two side effects and no \<^verbatim>\<open>try\<close>
  around it, as in \<^verbatim>\<open>send(); await api_call(); reply()\<close>.\<close>

definition suspending_handlers :: handlers where
  "suspending_handlers =
     \<lparr>private_receive_handler = (\<lambda>b m kw. Effect 3 Finish),
      link_handler = (\<lambda>b m kw. Effect 1 (Await (Effect 2 Finish) (Throw CancelledError)))\<rparr>"



section \<open>The token cleanup loop\<close>

text \<open>
  \<^verbatim>\<open>schedule_token_cleanup\<close> (lines 188 to 197) repeats forever
  \<^verbatim>\<open>await asyncio.sleep(3 * 3600)\<close> and \<^verbatim>\<open>await cleanup_expired_tokens()\<close>. What the two
  awaits do in each round is given from outside, one record a round. When the script of
  rounds is used up the task is where it always is between rounds: asleep, still running.
\<close>

record iteration =
  asyncio_sleep :: "unit outcome"
  cleanup_expired_tokens :: "unit outcome"

datatype loop_result = Stopped | Running | Escaped exc

text \<open>The two \<^verbatim>\<open>except\<close> clauses of the loop: \<^verbatim>\<open>CancelledError\<close> logs and breaks,
  an \<^verbatim>\<open>Exception\<close> is logged and the loop goes round again, anything else leaves the
  function.\<close>

definition token_cleanup_except ::
  "event list \<Rightarrow> exc \<Rightarrow> event list \<times> loop_result \<Rightarrow> event list \<times> loop_result" where
  "token_cleanup_except ev e next_round =
     (case e of
        CancelledError \<Rightarrow> (ev @ [Log DEBUG TokenCleanupCancelled], Stopped)
      | Exception m \<Rightarrow> prepend (ev @ [Log ERROR (TokenCleanupError (Exception m))]) next_round
      | BaseException m \<Rightarrow> (ev, Escaped (BaseException m)))"

fun schedule_token_cleanup :: "iteration list \<Rightarrow> event list \<times> loop_result" where
  "schedule_token_cleanup [] = ([Sleep (3 * 3600)], Running)"
| "schedule_token_cleanup (it # script) =
     (case asyncio_sleep it of
        Raises e \<Rightarrow> token_cleanup_except [Sleep (3 * 3600)] e (schedule_token_cleanup script)
      | Returns _ \<Rightarrow>
          (case cleanup_expired_tokens it of
             Raises e \<Rightarrow>
               token_cleanup_except [Sleep (3 * 3600), CleanupExpiredTokens] e
                 (schedule_token_cleanup script)
           | Returns _ \<Rightarrow>
               prepend [Sleep (3 * 3600), CleanupExpiredTokens] (schedule_token_cleanup script)))"

text \<open>Every call of the purge in a trace comes directly after a sleep of three hours.
  The first argument of \<open>purges_after\<close> is the event before the rest of the trace.\<close>

primrec purges_after :: "event option \<Rightarrow> event list \<Rightarrow> bool" where
  "purges_after prev [] = True"
| "purges_after prev (e # ev) =
     ((if e = CleanupExpiredTokens then prev = Some (Sleep (3 * 3600)) else True)
      \<and> purges_after (Some e) ev)"

definition purge_follows_sleep :: "event list \<Rightarrow> bool" where
  "purge_follows_sleep ev = purges_after None ev"

section \<open>The flood-wait guard\<close>

text \<open>
  Modelled from the spec: \<^verbatim>\<open>handle_flood_wait\<close> is imported from
  \<^verbatim>\<open>Thunder.utils.handler\<close>, which is not among the sources at hand. The specification
  (section 4.1, RetryGuard) says: execute the operation; if the call fails with a
  flood-wait rejection carrying \<^verbatim>\<open>retry_after\<close>, suspend for \<^verbatim>\<open>retry_after\<close> plus a
  fixed safety margin and invoke again, up to a configured maximum number of attempts
  (possibly unbounded); propagate any other failure unchanged; log each retry with the
  attempt count and the wait.

  The operation is given by what its successive invocations do. With no bound on the
  attempts the guard need not return, which is the value \<open>None\<close>.
\<close>

datatype 'a api_reply = Succeeds 'a | FloodWait nat | Fails exc

datatype guard_error = FloodWaitError nat | OtherError exc

partial_function (option) flood_wait_loop ::
  "nat \<Rightarrow> nat option \<Rightarrow> (nat \<Rightarrow> 'a api_reply) \<Rightarrow> nat \<Rightarrow> event list
    \<Rightarrow> (event list \<times> (guard_error + 'a)) option" where
  "flood_wait_loop margin max_attempts operation attempt ev =
     (case operation attempt of
        Succeeds v \<Rightarrow> Some (ev @ [CallOperation attempt], Inr v)
      | Fails e \<Rightarrow> Some (ev @ [CallOperation attempt], Inl (OtherError e))
      | FloodWait retry_after \<Rightarrow>
          (if (case max_attempts of None \<Rightarrow> False | Some n \<Rightarrow> n \<le> Suc attempt)
           then Some (ev @ [CallOperation attempt], Inl (FloodWaitError retry_after))
           else flood_wait_loop margin max_attempts operation (Suc attempt)
                  (ev @ [CallOperation attempt,
                         LogRetry (Suc attempt) (retry_after + margin),
                         Sleep (retry_after + margin)])))"

definition handle_flood_wait ::
  "nat \<Rightarrow> nat option \<Rightarrow> (nat \<Rightarrow> 'a api_reply) \<Rightarrow> (event list \<times> (guard_error + 'a)) option" where
  "handle_flood_wait margin max_attempts operation =
     flood_wait_loop margin max_attempts operation 0 []"

text \<open>An API call that is rejected once with a flood-wait of 5 and then succeeds.\<close>

definition flaky_call :: "nat \<Rightarrow> string api_reply" where
  "flaky_call attempt = (if attempt = 0 then FloodWait 5 else Succeeds ''sent'')"

section \<open>Starting and stopping the services\<close>

text \<open>
  \<^verbatim>\<open>start_services\<close> (lines 82 to 186) is a sequence of \<^verbatim>\<open>try\<close> blocks. A block
  either lets control go on to the next statement, or executes \<^verbatim>\<open>return\<close>, or lets an
  exception out.
\<close>

datatype flow = Proceed | Returned | Raised exc

definition then_run :: "event list \<times> flow \<Rightarrow> event list \<times> flow \<Rightarrow> event list \<times> flow" where
  "then_run p q = (case snd p of Proceed \<Rightarrow> (fst p @ fst q, snd q) | _ \<Rightarrow> p)"

definition run_all :: "(event list \<times> flow) list \<Rightarrow> event list \<times> flow" where
  "run_all ps = foldr then_run ps ([], Proceed)"

text \<open>\<^verbatim>\<open>try: ... except Exception as e: ...\<close>.\<close>

definition except_Exception ::
  "event list \<times> flow \<Rightarrow> (exc \<Rightarrow> event list \<times> flow) \<Rightarrow> event list \<times> flow" where
  "except_Exception p handler =
     (case snd p of
        Raised (Exception m) \<Rightarrow>
          (fst p @ fst (handler (Exception m)), snd (handler (Exception m)))
      | _ \<Rightarrow> p)"

text \<open>
  The plugin files found by \<^verbatim>\<open>glob\<close>, by stem, each with what importing it does:
  the module is executed, or \<^verbatim>\<open>spec_from_file_location\<close> gives no usable spec, or
  something raises.
\<close>

datatype plugin_load = Loaded | NoSpec | LoadRaises exc

text \<open>
  The collaborators of \<^verbatim>\<open>start_services\<close>: what each awaited call does, by the name of
  the call (\<^verbatim>\<open>StreamBot.start\<close> and the other API calls as they come back through
  \<^verbatim>\<open>handle_flood_wait\<close>); what \<^verbatim>\<open>db.get_restart_message()\<close> returns; the plugin files;
  what \<^verbatim>\<open>asyncio.create_task\<close> does for each task; and what \<^verbatim>\<open>await task\<close> gives
  during shutdown, after \<^verbatim>\<open>task.cancel()\<close>: \<^verbatim>\<open>CancelledError\<close> for a task that was
  cancelled, a return for a task that had finished or caught the cancellation, the
  task's own exception for a task that had failed.
\<close>

record services =
  awaited :: "string \<Rightarrow> unit outcome"
  restart_message_data :: "pyval outcome"
  plugins :: "(string \<times> plugin_load) list"
  create_task :: "task \<Rightarrow> unit outcome"
  await_task :: "task \<Rightarrow> unit outcome"

definition await_call :: "services \<Rightarrow> string \<Rightarrow> event list \<times> flow" where
  "await_call s name =
     ([Call name], case awaited s name of Returns _ \<Rightarrow> Proceed | Raises e \<Rightarrow> Raised e)"

text \<open>\<^verbatim>\<open>restart_message_data["chat_id"]\<close>: a missing key and a value that is no mapping
  raise.\<close>

definition subscript :: "pyval \<Rightarrow> string \<Rightarrow> event list \<times> flow" where
  "subscript d k =
     ([], case d of
            PDict kv \<Rightarrow>
              (case map_of kv k of None \<Rightarrow> Raised (Exception ''KeyError'') | Some _ \<Rightarrow> Proceed)
          | _ \<Rightarrow> Raised (Exception ''TypeError''))"

subsection \<open>\<^verbatim>\<open>import_plugins\<close> (lines 44 to 80)\<close>

fun import_plugin_files :: "(string \<times> plugin_load) list \<Rightarrow> nat \<Rightarrow> event list \<times> nat outcome" where
  "import_plugin_files [] success_count = ([], Returns success_count)"
| "import_plugin_files ((plugin_name, Loaded) # files) success_count =
     import_plugin_files files (success_count + 1)"
| "import_plugin_files ((plugin_name, NoSpec) # files) success_count =
     prepend [Log ERROR (InvalidPluginSpec plugin_name)]
       (import_plugin_files files success_count)"
| "import_plugin_files ((plugin_name, LoadRaises e) # files) success_count =
     (case e of
        Exception m \<Rightarrow>
          prepend [Log ERROR (FailedImportPlugin plugin_name (Exception m))]
            (import_plugin_files files success_count)
      | _ \<Rightarrow> ([], Raises e))"

definition import_plugins :: "(string \<times> plugin_load) list \<Rightarrow> event list \<times> nat outcome" where
  "import_plugins files = (if files = [] then ([], Returns 0) else import_plugin_files files 0)"

subsection \<open>The phases of \<^verbatim>\<open>start_services\<close>\<close>

text \<open>Lines 97 to 110: the restart message, with its own \<^verbatim>\<open>try\<close>.\<close>

definition restart_message :: "services \<Rightarrow> event list \<times> flow" where
  "restart_message s =
     (case restart_message_data s of
        Raises e \<Rightarrow> ([Call ''db.get_restart_message''], Raised e)
      | Returns d \<Rightarrow>
          then_run ([Call ''db.get_restart_message''], Proceed)
            (if truthy d
             then except_Exception
                    (run_all [subscript d ''chat_id'',
                              subscript d ''message_id'',
                              await_call s ''StreamBot.edit_message_text'',
                              subscript d ''message_id'',
                              await_call s ''db.delete_restart_message''])
                    (\<lambda>e. ([Log ERROR (ErrorRestartMessage e)], Proceed))
             else ([], Proceed)))"

text \<open>Lines 88 to 114.\<close>

definition initialize_bot :: "services \<Rightarrow> event list \<times> flow" where
  "initialize_bot s =
     except_Exception
       (run_all [await_call s ''StreamBot.start'',
                 await_call s ''StreamBot.get_me'',
                 await_call s ''set_commands'',
                 restart_message s])
       (\<lambda>e. ([Log ERROR (FailedInitBot e)], Returned))"

text \<open>Lines 117 to 121.\<close>

definition initialize_client_pool :: "services \<Rightarrow> event list \<times> flow" where
  "initialize_client_pool s =
     except_Exception (await_call s ''initialize_clients'')
       (\<lambda>e. ([Log ERROR (FailedInitClients e)], Returned))"

text \<open>Line 123: outside every \<^verbatim>\<open>try\<close>.\<close>

definition load_plugins :: "services \<Rightarrow> event list \<times> flow" where
  "load_plugins s =
     (case import_plugins (plugins s) of
        (ev, Returns _) \<Rightarrow> (ev, Proceed)
      | (ev, Raises e) \<Rightarrow> (ev, Raised e))"

definition start_task :: "services \<Rightarrow> task \<Rightarrow> event list \<times> flow" where
  "start_task s t =
     (case create_task s t of Returns _ \<Rightarrow> ([CreateTask t], Proceed) | Raises e \<Rightarrow> ([], Raised e))"

text \<open>Lines 126 to 131.\<close>

definition start_executor :: "services \<Rightarrow> event list \<times> flow" where
  "start_executor s =
     except_Exception (start_task s request_executor_task)
       (\<lambda>e. ([Log ERROR (FailedStartExecutor e)], Returned))"

text \<open>Lines 134 to 147: the web server, then the keep-alive and token cleanup tasks.\<close>

definition start_web_server :: "services \<Rightarrow> event list \<times> flow" where
  "start_web_server s =
     except_Exception
       (run_all [await_call s ''web_server'',
                 await_call s ''app_runner.setup'',
                 await_call s ''site.start'',
                 start_task s keepalive_task,
                 start_task s token_cleanup_task])
       (\<lambda>e. ([Log ERROR (FailedStartWebServer e)], Returned))"

text \<open>Lines 164 to 170, for one task: \<^verbatim>\<open>task.cancel()\<close>, then \<^verbatim>\<open>await task\<close> with
  \<^verbatim>\<open>except asyncio.CancelledError: pass\<close>.\<close>

definition stop_task :: "services \<Rightarrow> task \<Rightarrow> event list \<times> flow" where
  "stop_task s t =
     ([CancelTask t, AwaitTask t],
      case await_task s t of
        Returns _ \<Rightarrow> Proceed
      | Raises CancelledError \<Rightarrow> Proceed
      | Raises e \<Rightarrow> Raised e)"

text \<open>
  The \<^verbatim>\<open>finally\<close> block (lines 162 to 186). It is entered only after line 159, when
  the three tasks and \<^verbatim>\<open>app_runner\<close> exist, so the tests \<^verbatim>\<open>if task:\<close> and
  \<^verbatim>\<open>'app_runner' in locals()\<close> succeed.
\<close>

definition shutdown :: "services \<Rightarrow> event list \<times> flow" where
  "shutdown s =
     run_all [stop_task s keepalive_task,
              stop_task s token_cleanup_task,
              stop_task s request_executor_task,
              except_Exception (await_call s ''rate_limiter.shutdown'')
                (\<lambda>e. ([Log ERROR (ErrorRateLimiterCleanup e)], Proceed)),
              except_Exception (await_call s ''cleanup_clients'')
                (\<lambda>e. ([Log ERROR (ErrorClientCleanup e)], Proceed)),
              except_Exception (await_call s ''app_runner.cleanup'')
                (\<lambda>e. ([Log ERROR (ErrorWebServerCleanup e)], Proceed))]"

text \<open>Lines 159 to 186: \<^verbatim>\<open>try: await idle()\<close> with the \<^verbatim>\<open>finally\<close> block. An exception
  of the \<^verbatim>\<open>finally\<close> block replaces the outcome of \<^verbatim>\<open>idle()\<close>.\<close>

definition idle_then_shutdown :: "services \<Rightarrow> event list \<times> flow" where
  "idle_then_shutdown s =
     (let p = await_call s ''idle''; q = shutdown s
      in (fst p @ fst q, case snd q of Proceed \<Rightarrow> snd p | r \<Rightarrow> r))"

definition start_services :: "services \<Rightarrow> event list \<times> flow" where
  "start_services s =
     run_all [initialize_bot s,
              initialize_client_pool s,
              load_plugins s,
              start_executor s,
              start_web_server s,
              idle_then_shutdown s]"

text \<open>The \<^verbatim>\<open>__main__\<close> block (lines 228 to 239): \<^verbatim>\<open>KeyboardInterrupt\<close> is announced
  with \<^verbatim>\<open>print\<close>, an \<^verbatim>\<open>Exception\<close> is logged, and the loop is closed in any case.\<close>

definition main :: "services \<Rightarrow> event list \<times> flow" where
  "main s =
     (case start_services s of
        (ev, Raised (Exception m)) \<Rightarrow>
          (ev @ [Log ERROR (UnexpectedError (Exception m)), CloseLoop], Proceed)
      | (ev, Raised (BaseException m)) \<Rightarrow>
          (if m = ''KeyboardInterrupt'' then (ev @ [CloseLoop], Proceed)
           else (ev @ [CloseLoop], Raised (BaseException m)))
      | (ev, Raised CancelledError) \<Rightarrow> (ev @ [CloseLoop], Raised CancelledError)
      | (ev, _) \<Rightarrow> (ev @ [CloseLoop], Proceed))"

subsection \<open>Notions used to state the properties of the life cycle\<close>

text \<open>The tasks a trace creates and never cancels.\<close>

definition left_running :: "event list \<Rightarrow> task list" where
  "left_running ev =
     filter (\<lambda>t. CreateTask t \<in> set ev \<and> CancelTask t \<notin> set ev)
       [keepalive_task, token_cleanup_task, request_executor_task]"

text \<open>Collaborators that all do their work: no restart message, one plugin, and tasks
  that end with \<^verbatim>\<open>CancelledError\<close> when they are cancelled.\<close>

definition healthy :: services where
  "healthy =
     \<lparr>awaited = (\<lambda>name. Returns ()),
      restart_message_data = Returns PNone,
      plugins = [(''stream'', Loaded)],
      create_task = (\<lambda>t. Returns ()),
      await_task = (\<lambda>t. Raises CancelledError)\<rparr>"

section \<open>Properties of the request executor\<close>

lemmas executor_defs =
  execute_request_def dispatch_def call_handler_def handler_for_def prepend_def
  dict_get_def dict_get_default_def passes_field_check_def Let_def

lemma dict_get_missing: "map_of d k = None \<Longrightarrow> dict_get d k = PNone"
  by (simp add: dict_get_def dict_get_default_def)

lemma dict_get_present: "map_of d k = Some v \<Longrightarrow> dict_get d k = v"
  by (simp add: dict_get_def dict_get_default_def)

lemma execute_request_invalid:
  "\<not> passes_field_check rd \<Longrightarrow>
     execute_request hs c rd = ([Log ERROR (SkippingInvalidRequest rd)], Continue c)"
  by (simp add: execute_request_def passes_field_check_def Let_def)

lemma execute_request_unknown:
  assumes "passes_field_check rd"
      and "dict_get rd ''handler_type'' \<noteq> PStr ''private''"
      and "dict_get rd ''handler_type'' \<noteq> PStr ''link''"
  shows "execute_request hs c rd =
           ([Log DEBUG (ExecutingQueued (dict_get rd ''handler_type'') (dict_get rd ''user_id'')),
             Log ERROR (UnknownHandlerType (dict_get rd ''handler_type''))], Continue c)"
  using assms by (simp add: execute_request_def passes_field_check_def Let_def dispatch_def)

lemma dispatch_call:
  assumes "(dict_get rd ''handler_type'' = PStr ''private'' \<and> h = Private)
           \<or> (dict_get rd ''handler_type'' = PStr ''link'' \<and> h = Link)"
      and "dict_get_default rd ''kwargs'' (PDict []) = PDict kw"
      and "drive (handler_for hs h (dict_get rd ''bot'') (dict_get rd ''message'') kw) c = (ev, r, c')"
  shows "dispatch hs (dict_get rd ''handler_type'') (dict_get rd ''bot'') (dict_get rd ''message'')
           (dict_get_default rd ''kwargs'' (PDict [])) c
         = (Invoke h (dict_get rd ''bot'') (dict_get rd ''message'') kw # ev, r, c')"
  using assms by (auto simp: dispatch_def call_handler_def)

text \<open>The coroutine of a handler emits handler effects only, and without a pending
  cancellation none appears.\<close>

lemma drive_None: "snd (snd (drive k None)) = None"
  by (induction k) (auto split: prod.splits)

lemma drive_events: "e \<in> set (fst (drive k c)) \<Longrightarrow> \<exists>n. e = HandlerEffect n"
  by (induction k c rule: drive.induct) (auto split: prod.splits)

lemma invocations_drive: "invocations (fst (drive k c)) = []"
  unfolding invocations_def
  by (rule filter_False) (auto dest: drive_events)

lemma invocations_append: "invocations (xs @ ys) = invocations xs @ invocations ys"
  by (simp add: invocations_def)

lemma handler_run_for:
  assumes "dispatchable rd"
  shows "handler_run hs rd
           = drive (handler_for hs (kind rd) (dict_get rd ''bot'') (dict_get rd ''message'')
                     (options rd)) None"
  using assms by (auto simp: handler_run_def handler_for_def kind_def dispatchable_def)

lemma execute_request_settles:
  assumes "dispatchable rd" and "settles hs rd"
  shows "execute_request hs None rd = (request_trace hs rd, Continue None)"
proof -
  let ?k = "handler_for hs (kind rd) (dict_get rd ''bot'') (dict_get rd ''message'') (options rd)"
  obtain ev r c' where d: "drive ?k None = (ev, r, c')"
    by (metis prod_cases3)
  have run: "handler_run hs rd = (ev, r, c')"
    using handler_run_for [OF assms(1)] d by simp
  have c': "c' = None"
    using drive_None [of ?k] d by simp
  from assms(1) have pf: "passes_field_check rd"
    and kw: "dict_get_default rd ''kwargs'' (PDict []) = PDict (options rd)"
    and k: "(dict_get rd ''handler_type'' = PStr ''private'' \<and> kind rd = Private)
           \<or> (dict_get rd ''handler_type'' = PStr ''link'' \<and> kind rd = Link)"
    by (auto simp: dispatchable_def options_def kind_def split: pyval.splits)
  have disp: "dispatch hs (dict_get rd ''handler_type'') (dict_get rd ''bot'')
                (dict_get rd ''message'') (dict_get_default rd ''kwargs'' (PDict [])) None
              = (Invoke (kind rd) (dict_get rd ''bot'') (dict_get rd ''message'') (options rd) # ev,
                 r, c')"
    by (rule dispatch_call [OF k kw d])
  from assms(2) run consider "r = Returns ()" | m where "r = Raises (Exception m)"
    by (auto simp: settles_def split: outcome.splits exc.splits)
  then show ?thesis
  proof cases
    case 1
    with pf disp c' run show ?thesis
      by (simp add: execute_request_def passes_field_check_def Let_def request_trace_def
          invocation_of_def)
  next
    case 2
    with pf disp c' run show ?thesis
      by (simp add: execute_request_def passes_field_check_def Let_def request_trace_def
          invocation_of_def)
  qed
qed

lemma invocations_handler_run: "invocations (fst (handler_run hs rd)) = []"
  by (simp add: handler_run_def invocations_drive)

lemma invocations_request_trace: "invocations (request_trace hs rd) = [invocation_of rd]"
proof -
  have "invocations
          (case fst (snd (handler_run hs rd)) of
             Returns _ \<Rightarrow> []
           | Raises e \<Rightarrow> [Log ERROR (ErrorExecutingRequest (dict_get rd ''user_id'') e)]) = []"
    by (simp add: invocations_def split: outcome.splits)
  moreover have "invocations
          [Log DEBUG (ExecutingQueued (dict_get rd ''handler_type'') (dict_get rd ''user_id'')),
           invocation_of rd] = [invocation_of rd]"
    by (simp add: invocations_def invocation_of_def)
  ultimately show ?thesis
    unfolding request_trace_def invocations_append
    by (simp add: invocations_handler_run)
qed

lemma invocations_concat_traces:
  "invocations (concat (map (request_trace hs) rds)) = map invocation_of rds"
  by (induction rds) (simp_all add: invocations_def [of "[]"] invocations_append
      invocations_request_trace)

lemma executor_loop_traces:
  assumes "\<forall>rd \<in> set rds. dispatchable rd \<and> settles hs rd"
  shows "executor_loop hs None (map QItem rds)
           = (concat (map (request_trace hs) rds), Exhausted)"
  using assms
proof (induction rds)
  case Nil
  show ?case by simp
next
  case (Cons rd rds)
  then have e: "execute_request hs None rd = (request_trace hs rd, Continue None)"
    using execute_request_settles [of rd hs] by simp
  from Cons
  have "executor_loop hs None (map QItem rds) = (concat (map (request_trace hs) rds), Exhausted)"
    by simp
  with e show ?case
    by (simp add: prepend_def)
qed

lemma link_request_ok: "dispatchable link_request \<and> settles simple_handlers link_request"
  by (simp add: dispatchable_def settles_def passes_field_check_def link_request_def
      dict_get_def dict_get_default_def simple_handlers_def handler_run_def options_def)

lemma private_request_ok:
  "dispatchable private_request \<and> settles simple_handlers private_request"
  by (simp add: dispatchable_def settles_def passes_field_check_def private_request_def
      dict_get_def dict_get_default_def simple_handlers_def handler_run_def options_def)

text \<open>
  C1. A dequeued request in which \<^verbatim>\<open>handler_type\<close>, \<^verbatim>\<open>bot\<close>, \<^verbatim>\<open>message\<close> or
  \<^verbatim>\<open>user_id\<close> is missing produces one ERROR record showing the request and nothing else:
  no handler is invoked, and the loop goes on with the rest of the queue exactly as it
  would have without that request.
\<close>

theorem missing_field_skipped:
  assumes "map_of rd ''handler_type'' = None \<or> map_of rd ''bot'' = None
           \<or> map_of rd ''message'' = None \<or> map_of rd ''user_id'' = None"
  shows "executor_loop hs c (QItem rd # q)
           = prepend [Log ERROR (SkippingInvalidRequest rd)] (executor_loop hs c q)"
proof -
  from assms have "\<not> passes_field_check rd"
    by (auto simp: passes_field_check_def dict_get_missing)
  then show ?thesis
    by (simp add: execute_request_invalid)
qed

theorem missing_field_skipped_witness:
  "map_of [(''handler_type'', PStr ''link''), (''bot'', PObj 1), (''message'', PObj 2)] ''user_id''
     = None
   \<and> executor_loop simple_handlers None
       [QItem [(''handler_type'', PStr ''link''), (''bot'', PObj 1), (''message'', PObj 2)],
        QItem link_request]
     = ([Log ERROR (SkippingInvalidRequest
                     [(''handler_type'', PStr ''link''), (''bot'', PObj 1), (''message'', PObj 2)]),
         Log DEBUG (ExecutingQueued (PStr ''link'') (PInt 42)),
         Invoke Link (PObj 1) (PObj 2) [],
         HandlerEffect 1],
        Exhausted)"
  using missing_field_skipped
    [where rd = "[(''handler_type'', PStr ''link''), (''bot'', PObj 1), (''message'', PObj 2)]"
       and hs = simple_handlers and c = None and q = "[QItem link_request]"]
  by (simp add: executor_defs simple_handlers_def link_request_def)




text \<open>
  C3. A dequeued request whose \<^verbatim>\<open>handler_type\<close> is present and is neither
  \<^verbatim>\<open>'private'\<close> nor \<^verbatim>\<open>'link'\<close> is dropped: nothing is raised, no handler is invoked, and
  the loop goes on with the rest of the queue. The ERROR record names the unknown handler
  type when the request passes the field check; otherwise it is the record of an invalid
  request, which shows the whole request.
\<close>

theorem unknown_kind_discarded:
  assumes "map_of rd ''handler_type'' = Some k"
      and "k \<noteq> PStr ''private''" and "k \<noteq> PStr ''link''"
  shows "executor_loop hs c (QItem rd # q)
           = prepend (if passes_field_check rd
                      then [Log DEBUG (ExecutingQueued k (dict_get rd ''user_id'')),
                            Log ERROR (UnknownHandlerType k)]
                      else [Log ERROR (SkippingInvalidRequest rd)])
               (executor_loop hs c q)"
proof (cases "passes_field_check rd")
  case True
  with assms show ?thesis
    by (simp add: execute_request_unknown dict_get_present)
next
  case False
  then show ?thesis
    by (simp add: execute_request_invalid)
qed

theorem unknown_kind_discarded_witness:
  "map_of [(''handler_type'', PStr ''batch''), (''bot'', PObj 1), (''message'', PObj 2),
           (''user_id'', PInt 5)] ''handler_type'' = Some (PStr ''batch'')
   \<and> PStr ''batch'' \<noteq> PStr ''private'' \<and> PStr ''batch'' \<noteq> PStr ''link''
   \<and> executor_loop simple_handlers None
       [QItem [(''handler_type'', PStr ''batch''), (''bot'', PObj 1), (''message'', PObj 2),
               (''user_id'', PInt 5)],
        QItem private_request]
     = ([Log DEBUG (ExecutingQueued (PStr ''batch'') (PInt 5)),
         Log ERROR (UnknownHandlerType (PStr ''batch'')),
         Log DEBUG (ExecutingQueued (PStr ''private'') (PInt 7)),
         Invoke Private (PObj 1) (PObj 3) [],
         HandlerEffect 2],
        Exhausted)"
  using unknown_kind_discarded
    [where rd = "[(''handler_type'', PStr ''batch''), (''bot'', PObj 1), (''message'', PObj 2),
                  (''user_id'', PInt 5)]"
       and k = "PStr ''batch''" and hs = simple_handlers and c = None
       and q = "[QItem private_request]"]
  by (simp add: executor_defs simple_handlers_def private_request_def)

text \<open>
  C4. For a queue of dispatchable requests the executor does, request by request and in
  the order of the queue, exactly this: it logs the request at DEBUG, calls one handler,
  \<^verbatim>\<open>private_receive_handler(bot, message, **kwargs)\<close> for kind \<^verbatim>\<open>'private'\<close> and
  \<^verbatim>\<open>link_handler(bot, message, **kwargs)\<close> for kind \<^verbatim>\<open>'link'\<close>, lets that handler do what
  it does, and logs its \<^verbatim>\<open>Exception\<close> if it raised one. So the calls are one for each
  request, in order, and the executor returns when the queue ends. Handlers return or
  raise an \<^verbatim>\<open>Exception\<close> here, and nobody cancels the task.
\<close>

theorem dispatch_by_kind_in_order:
  assumes "\<forall>rd \<in> set rds. dispatchable rd \<and> settles hs rd"
  shows "fst (request_executor hs None (map QItem rds))
           = Log INFO RequestExecutorStarted # concat (map (request_trace hs) rds)
         \<and> invocations (fst (request_executor hs None (map QItem rds))) = map invocation_of rds
         \<and> snd (request_executor hs None (map QItem rds)) = Exhausted"
proof -
  have loop: "executor_loop hs None (map QItem rds)
                = (concat (map (request_trace hs) rds), Exhausted)"
    using assms by (rule executor_loop_traces)
  have started: "invocations [Log INFO RequestExecutorStarted] = []"
    by (simp add: invocations_def)
  have "invocations ([Log INFO RequestExecutorStarted] @ concat (map (request_trace hs) rds))
          = map invocation_of rds"
    unfolding invocations_append started by (simp add: invocations_concat_traces)
  with loop show ?thesis
    by (simp add: request_executor_def prepend_def)
qed

theorem dispatch_by_kind_in_order_witness:
  "dispatchable link_request \<and> settles simple_handlers link_request
   \<and> dispatchable private_request \<and> settles simple_handlers private_request
   \<and> fst (request_executor simple_handlers None [QItem link_request, QItem private_request])
     = [Log INFO RequestExecutorStarted,
        Log DEBUG (ExecutingQueued (PStr ''link'') (PInt 42)),
        Invoke Link (PObj 1) (PObj 2) [],
        HandlerEffect 1,
        Log DEBUG (ExecutingQueued (PStr ''private'') (PInt 7)),
        Invoke Private (PObj 1) (PObj 3) [],
        HandlerEffect 2]
   \<and> invocations (fst (request_executor simple_handlers None
                         [QItem link_request, QItem private_request]))
     = [Invoke Link (PObj 1) (PObj 2) [], Invoke Private (PObj 1) (PObj 3) []]
   \<and> snd (request_executor simple_handlers None [QItem link_request, QItem private_request])
     = Exhausted"
proof -
  have hyp: "\<forall>rd \<in> set [link_request, private_request].
               dispatchable rd \<and> settles simple_handlers rd"
    using link_request_ok private_request_ok by simp
  have l: "request_trace simple_handlers link_request
             = [Log DEBUG (ExecutingQueued (PStr ''link'') (PInt 42)),
                Invoke Link (PObj 1) (PObj 2) [],
                HandlerEffect 1]"
    by (simp add: request_trace_def handler_run_def invocation_of_def kind_def options_def
        link_request_def simple_handlers_def dict_get_def dict_get_default_def)
  have p: "request_trace simple_handlers private_request
             = [Log DEBUG (ExecutingQueued (PStr ''private'') (PInt 7)),
                Invoke Private (PObj 1) (PObj 3) [],
                HandlerEffect 2]"
    by (simp add: request_trace_def handler_run_def invocation_of_def kind_def options_def
        private_request_def simple_handlers_def dict_get_def dict_get_default_def)
  have il: "invocation_of link_request = Invoke Link (PObj 1) (PObj 2) []"
    by (simp add: invocation_of_def kind_def options_def link_request_def dict_get_def
        dict_get_default_def)
  have ip: "invocation_of private_request = Invoke Private (PObj 1) (PObj 3) []"
    by (simp add: invocation_of_def kind_def options_def private_request_def dict_get_def
        dict_get_default_def)
  show ?thesis
    using dispatch_by_kind_in_order [OF hyp] link_request_ok private_request_ok
    by (simp add: l p il ip invocations_def)
qed

text \<open>
  C5, as the specification states it: a cancellation that arrives while a request is in
  flight lets the handler run to completion. It does not. The link handler of
  \<open>suspending_handlers\<close> performs effects 1 and 2 when it is left alone; cancelled at its
  suspension point it has performed effect 1 only when the executor stops.
\<close>

theorem cancellation_interrupts_handler:
  "executor_loop suspending_handlers None [QItem link_request]
     = ([Log DEBUG (ExecutingQueued (PStr ''link'') (PInt 42)),
         Invoke Link (PObj 1) (PObj 2) [],
         HandlerEffect 1, HandlerEffect 2],
        Exhausted)
   \<and> executor_loop suspending_handlers (Some 0) [QItem link_request]
     = ([Log DEBUG (ExecutingQueued (PStr ''link'') (PInt 42)),
         Invoke Link (PObj 1) (PObj 2) [],
         HandlerEffect 1,
         Log INFO RequestExecutorCancelled],
        Cancelled)"
  by (simp add: executor_defs suspending_handlers_def link_request_def)

text \<open>
  C5, amended: the cancellation is raised inside the awaited handler. Once
  \<^verbatim>\<open>CancelledError\<close> comes out of the handler, the executor logs that it was cancelled
  and leaves the loop; whatever is still in the queue is neither dequeued nor dispatched.
\<close>

theorem cancellation_exits_loop:
  assumes "passes_field_check rd"
      and "(dict_get rd ''handler_type'' = PStr ''private'' \<and> h = Private)
           \<or> (dict_get rd ''handler_type'' = PStr ''link'' \<and> h = Link)"
      and "dict_get_default rd ''kwargs'' (PDict []) = PDict kw"
      and "drive (handler_for hs h (dict_get rd ''bot'') (dict_get rd ''message'') kw) c
             = (ev, Raises CancelledError, c')"
  shows "executor_loop hs c (QItem rd # q)
           = ([Log DEBUG (ExecutingQueued (dict_get rd ''handler_type'') (dict_get rd ''user_id'')),
               Invoke h (dict_get rd ''bot'') (dict_get rd ''message'') kw]
              @ ev @ [Log INFO RequestExecutorCancelled],
              Cancelled)"
proof -
  have "execute_request hs c rd =
          ([Log DEBUG (ExecutingQueued (dict_get rd ''handler_type'') (dict_get rd ''user_id'')),
            Invoke h (dict_get rd ''bot'') (dict_get rd ''message'') kw]
           @ ev @ [Log INFO RequestExecutorCancelled], Break)"
    using assms(1) dispatch_call [OF assms(2-4)]
    by (simp add: execute_request_def passes_field_check_def Let_def)
  then show ?thesis by simp
qed

theorem cancellation_exits_loop_witness:
  "passes_field_check link_request
   \<and> drive (handler_for suspending_handlers Link (PObj 1) (PObj 2) []) (Some 0)
       = ([HandlerEffect 1], Raises CancelledError, None)
   \<and> executor_loop suspending_handlers (Some 0) [QItem link_request, QItem private_request]
       = ([Log DEBUG (ExecutingQueued (PStr ''link'') (PInt 42)),
           Invoke Link (PObj 1) (PObj 2) [],
           HandlerEffect 1,
           Log INFO RequestExecutorCancelled],
          Cancelled)"
  using cancellation_exits_loop
    [where rd = link_request and h = Link and kw = "[]" and hs = suspending_handlers
       and c = "Some 0" and ev = "[HandlerEffect 1]" and c' = None
       and q = "[QItem private_request]"]
  by (simp add: executor_defs suspending_handlers_def link_request_def)

text \<open>
  C10. The field check tests truth values, not presence: a request in which every
  required field is present and not \<^verbatim>\<open>None\<close> is still dropped as invalid, with no
  handler invoked, when \<^verbatim>\<open>user_id\<close> is 0 or when \<^verbatim>\<open>handler_type\<close> is the empty string.
\<close>

theorem falsy_field_rejected:
  "executor_loop hs c
     (QItem [(''handler_type'', PStr ''link''), (''bot'', PObj 1), (''message'', PObj 2),
             (''user_id'', PInt 0)] # q)
     = prepend [Log ERROR (SkippingInvalidRequest
                  [(''handler_type'', PStr ''link''), (''bot'', PObj 1), (''message'', PObj 2),
                   (''user_id'', PInt 0)])]
         (executor_loop hs c q)
   \<and> executor_loop hs c
     (QItem [(''handler_type'', PStr ''''), (''bot'', PObj 1), (''message'', PObj 2),
             (''user_id'', PInt 42)] # q)
     = prepend [Log ERROR (SkippingInvalidRequest
                  [(''handler_type'', PStr ''''), (''bot'', PObj 1), (''message'', PObj 2),
                   (''user_id'', PInt 42)])]
         (executor_loop hs c q)"
  by (simp add: execute_request_invalid passes_field_check_def dict_get_def dict_get_default_def)

section \<open>Properties of the token cleanup loop\<close>

lemma schedule_starts_with_sleep:
  "\<exists>ev. fst (schedule_token_cleanup s) = Sleep (3 * 3600) # ev"
  by (cases s) (auto simp: token_cleanup_except_def prepend_def split: outcome.splits exc.splits)

lemma purges_after_append:
  "purges_after prev (xs @ ys)
     = (purges_after prev xs \<and> purges_after (if xs = [] then prev else Some (last xs)) ys)"
  by (induction xs arbitrary: prev) auto

lemma purges_after_sleep_first:
  "purges_after prev (Sleep n # ev) = purges_after (Some (Sleep n)) ev"
  by simp

lemma schedule_purges_after: "purges_after prev (fst (schedule_token_cleanup s))"
proof (induction s arbitrary: prev)
  case Nil
  show ?case by simp
next
  case (Cons it s)
  have rest: "\<And>p. purges_after p (fst (schedule_token_cleanup s))"
    by (rule Cons.IH)
  show ?case
    by (auto simp: token_cleanup_except_def prepend_def purges_after_append rest
        split: outcome.splits exc.splits)
qed

lemma schedule_purge_follows_sleep: "purge_follows_sleep (fst (schedule_token_cleanup s))"
  by (simp add: purge_follows_sleep_def schedule_purges_after)

text \<open>
  C8. Whatever the rounds do, a purge is only ever called directly after a sleep of
  3 * 3600 seconds. A round in which both awaits return is a sleep and a purge. A round
  whose purge raises an \<^verbatim>\<open>Exception\<close> logs it at ERROR and the loop goes on, and what
  comes next is the sleep of the next round, not another purge. A round whose sleep is
  cancelled logs at DEBUG and ends the loop: no purge is called, whatever rounds were
  still to come.
\<close>

theorem token_cleanup_cycle:
  "purge_follows_sleep (fst (schedule_token_cleanup script))
   \<and> (asyncio_sleep it = Returns () \<and> cleanup_expired_tokens it = Returns () \<longrightarrow>
        schedule_token_cleanup (it # s)
          = prepend [Sleep (3 * 3600), CleanupExpiredTokens] (schedule_token_cleanup s))
   \<and> (asyncio_sleep it = Returns () \<and> cleanup_expired_tokens it = Raises (Exception m) \<longrightarrow>
        schedule_token_cleanup (it # s)
          = prepend [Sleep (3 * 3600), CleanupExpiredTokens,
                     Log ERROR (TokenCleanupError (Exception m))]
              (schedule_token_cleanup s)
        \<and> hd (fst (schedule_token_cleanup s)) = Sleep (3 * 3600))
   \<and> (asyncio_sleep it = Raises CancelledError \<longrightarrow>
        schedule_token_cleanup (it # s)
          = ([Sleep (3 * 3600), Log DEBUG TokenCleanupCancelled], Stopped))"
proof -
  obtain ev where "fst (schedule_token_cleanup s) = Sleep (3 * 3600) # ev"
    using schedule_starts_with_sleep by blast
  then show ?thesis
    by (simp add: schedule_purge_follows_sleep token_cleanup_except_def)
qed

theorem token_cleanup_cycle_witness:
  "schedule_token_cleanup
     [\<lparr>asyncio_sleep = Returns (), cleanup_expired_tokens = Returns ()\<rparr>,
      \<lparr>asyncio_sleep = Returns (), cleanup_expired_tokens = Raises (Exception ''db down'')\<rparr>,
      \<lparr>asyncio_sleep = Raises CancelledError, cleanup_expired_tokens = Returns ()\<rparr>,
      \<lparr>asyncio_sleep = Returns (), cleanup_expired_tokens = Returns ()\<rparr>]
   = ([Sleep 10800, CleanupExpiredTokens,
       Sleep 10800, CleanupExpiredTokens, Log ERROR (TokenCleanupError (Exception ''db down'')),
       Sleep 10800, Log DEBUG TokenCleanupCancelled],
      Stopped)"
  using token_cleanup_cycle
    [where it = "\<lparr>asyncio_sleep = Returns (),
                    cleanup_expired_tokens = Raises (Exception ''db down'')\<rparr>"
       and m = "''db down''" and script = "[]"
       and s = "[\<lparr>asyncio_sleep = Raises CancelledError, cleanup_expired_tokens = Returns ()\<rparr>,
                 \<lparr>asyncio_sleep = Returns (), cleanup_expired_tokens = Returns ()\<rparr>]"]
  by (simp add: token_cleanup_except_def prepend_def)

section \<open>Properties of the flood-wait guard\<close>

text \<open>
  C9. When the first invocation is rejected with a flood-wait of 5, the second succeeds
  and the guard is allowed at least two attempts, the guard sleeps 5 plus its margin,
  invokes again and returns the result of the second invocation: the caller gets the
  value, not the rejection. A failure that is not a flood-wait is returned to the caller
  as it is, at whichever attempt it happens, with no sleep and no further invocation.
\<close>

theorem flood_wait_absorbed:
  "(operation 0 = FloodWait 5 \<and> operation 1 = Succeeds v
      \<and> (case max_attempts of None \<Rightarrow> True | Some n \<Rightarrow> 2 \<le> n) \<longrightarrow>
      handle_flood_wait margin max_attempts operation
        = Some ([CallOperation 0, LogRetry 1 (5 + margin), Sleep (5 + margin), CallOperation 1],
                Inr v))
   \<and> (operation attempt = Fails e \<longrightarrow>
        flood_wait_loop margin max_attempts operation attempt ev
          = Some (ev @ [CallOperation attempt], Inl (OtherError e)))
   \<and> (operation 0 = Fails e \<longrightarrow>
        handle_flood_wait margin max_attempts operation
          = Some ([CallOperation 0], Inl (OtherError e)))"
proof (intro conjI impI)
  assume a: "operation 0 = FloodWait 5 \<and> operation 1 = Succeeds v
      \<and> (case max_attempts of None \<Rightarrow> True | Some n \<Rightarrow> 2 \<le> n)"
  then have more: "\<not> (case max_attempts of None \<Rightarrow> False | Some n \<Rightarrow> n \<le> Suc 0)"
    by (auto split: option.splits)
  have second: "flood_wait_loop margin max_attempts operation (Suc 0)
                  [CallOperation 0, LogRetry (Suc 0) (5 + margin), Sleep (5 + margin)]
                = Some ([CallOperation 0, LogRetry (Suc 0) (5 + margin), Sleep (5 + margin),
                         CallOperation (Suc 0)], Inr v)"
    using a by (subst flood_wait_loop.simps) simp
  show "handle_flood_wait margin max_attempts operation
        = Some ([CallOperation 0, LogRetry 1 (5 + margin), Sleep (5 + margin), CallOperation 1],
                Inr v)"
    unfolding handle_flood_wait_def
    using a more second by (subst flood_wait_loop.simps) simp
next
  assume "operation attempt = Fails e"
  then show "flood_wait_loop margin max_attempts operation attempt ev
          = Some (ev @ [CallOperation attempt], Inl (OtherError e))"
    by (subst flood_wait_loop.simps) simp
next
  assume "operation 0 = Fails e"
  then show "handle_flood_wait margin max_attempts operation
          = Some ([CallOperation 0], Inl (OtherError e))"
    unfolding handle_flood_wait_def by (subst flood_wait_loop.simps) simp
qed

theorem flood_wait_absorbed_witness:
  "flaky_call 0 = FloodWait 5 \<and> flaky_call 1 = Succeeds ''sent''
   \<and> handle_flood_wait 1 None flaky_call
       = Some ([CallOperation 0, LogRetry 1 6, Sleep 6, CallOperation 1], Inr ''sent'')
   \<and> handle_flood_wait 1 (Some 3) (\<lambda>attempt. Fails (Exception ''RPCError'') :: string api_reply)
       = Some ([CallOperation 0], Inl (OtherError (Exception ''RPCError'')))"
  using flood_wait_absorbed
    [where operation = flaky_call and v = "''sent''" and max_attempts = None and margin = 1]
    flood_wait_absorbed
    [where operation = "\<lambda>attempt. Fails (Exception ''RPCError'') :: string api_reply"
       and e = "Exception ''RPCError''" and max_attempts = "Some 3" and margin = 1]
  by (simp add: flaky_call_def)

section \<open>Properties of the life cycle\<close>

lemmas services_defs =
  start_services_def main_def run_all_def then_run_def except_Exception_def await_call_def
  initialize_bot_def restart_message_def initialize_client_pool_def load_plugins_def
  import_plugins_def start_task_def start_executor_def start_web_server_def stop_task_def
  shutdown_def idle_then_shutdown_def subscript_def prepend_def Let_def

text \<open>A run in which every collaborator does its work: all phases in order, every task
  cancelled and awaited, every cleanup called.\<close>

lemma healthy_run:
  "main healthy
     = ([Call ''StreamBot.start'', Call ''StreamBot.get_me'', Call ''set_commands'',
         Call ''db.get_restart_message'', Call ''initialize_clients'',
         CreateTask request_executor_task,
         Call ''web_server'', Call ''app_runner.setup'', Call ''site.start'',
         CreateTask keepalive_task, CreateTask token_cleanup_task,
         Call ''idle'',
         CancelTask keepalive_task, AwaitTask keepalive_task,
         CancelTask token_cleanup_task, AwaitTask token_cleanup_task,
         CancelTask request_executor_task, AwaitTask request_executor_task,
         Call ''rate_limiter.shutdown'', Call ''cleanup_clients'', Call ''app_runner.cleanup'',
         CloseLoop],
        Proceed)"
  by (simp add: services_defs healthy_def)

text \<open>The shutdown phases that have an \<^verbatim>\<open>except Exception\<close> of their own do go on after
  a failure: with tasks that stop as asked, a failing rate limiter and a failing client
  cleanup are logged and the web server is still cleaned up.\<close>

lemma cleanup_failures_logged:
  "shutdown (healthy\<lparr>awaited := (awaited healthy)
                (''rate_limiter.shutdown'' := Raises (Exception ''a''),
                 ''cleanup_clients'' := Raises (Exception ''b''))\<rparr>)
     = ([CancelTask keepalive_task, AwaitTask keepalive_task,
         CancelTask token_cleanup_task, AwaitTask token_cleanup_task,
         CancelTask request_executor_task, AwaitTask request_executor_task,
         Call ''rate_limiter.shutdown'', Log ERROR (ErrorRateLimiterCleanup (Exception ''a'')),
         Call ''cleanup_clients'', Log ERROR (ErrorClientCleanup (Exception ''b'')),
         Call ''app_runner.cleanup''],
        Proceed)"
  by (simp add: services_defs healthy_def)

text \<open>
  C6, at the input where the code departs from it: the keep-alive task has already
  failed with an \<^verbatim>\<open>Exception\<close> when shutdown begins. \<^verbatim>\<open>await task\<close> raises that
  exception again, the loop over the tasks has \<^verbatim>\<open>except asyncio.CancelledError\<close> only,
  and the exception leaves the \<^verbatim>\<open>finally\<close> block: the other two tasks are not cancelled,
  the rate limiter, the clients and the web server are not cleaned up, and the failure is
  logged only by the \<^verbatim>\<open>__main__\<close> block as an unexpected error.
\<close>

theorem failed_task_aborts_shutdown:
  "shutdown (s\<lparr>await_task := (await_task s)(keepalive_task := Raises (Exception m))\<rparr>)
     = ([CancelTask keepalive_task, AwaitTask keepalive_task], Raised (Exception m))
   \<and> main (healthy\<lparr>await_task := (await_task healthy)
                      (keepalive_task := Raises (Exception ''ping failed''))\<rparr>)
     = ([Call ''StreamBot.start'', Call ''StreamBot.get_me'', Call ''set_commands'',
         Call ''db.get_restart_message'', Call ''initialize_clients'',
         CreateTask request_executor_task,
         Call ''web_server'', Call ''app_runner.setup'', Call ''site.start'',
         CreateTask keepalive_task, CreateTask token_cleanup_task,
         Call ''idle'',
         CancelTask keepalive_task, AwaitTask keepalive_task,
         Log ERROR (UnexpectedError (Exception ''ping failed'')),
         CloseLoop],
        Proceed)"
  by (simp add: services_defs healthy_def)

text \<open>
  C7, at the input where the code departs from it: everything up to the web server
  works and \<^verbatim>\<open>site.start()\<close> fails to bind. \<^verbatim>\<open>start_services\<close> logs the failure and
  returns at line 147, before the \<^verbatim>\<open>try\<close> whose \<^verbatim>\<open>finally\<close> block cancels the tasks: the
  request executor task created at line 127 is never cancelled or awaited, and
  \<^verbatim>\<open>app_runner\<close>, already set up, is never cleaned up.
\<close>

theorem listener_failure_leaves_executor:
  "main (healthy\<lparr>awaited := (awaited healthy)(''site.start'' := Raises (Exception ''OSError''))\<rparr>)
     = ([Call ''StreamBot.start'', Call ''StreamBot.get_me'', Call ''set_commands'',
         Call ''db.get_restart_message'', Call ''initialize_clients'',
         CreateTask request_executor_task,
         Call ''web_server'', Call ''app_runner.setup'', Call ''site.start'',
         Log ERROR (FailedStartWebServer (Exception ''OSError'')),
         CloseLoop],
        Proceed)
   \<and> snd (start_services
        (healthy\<lparr>awaited := (awaited healthy)(''site.start'' := Raises (Exception ''OSError''))\<rparr>))
     = Returned
   \<and> left_running (fst (start_services
        (healthy\<lparr>awaited := (awaited healthy)(''site.start'' := Raises (Exception ''OSError''))\<rparr>)))
     = [request_executor_task]"
  by (simp add: services_defs healthy_def left_running_def)

end
